theory Spec2Isabelle
  imports Main
begin

section \<open>Inbound payloads\<close>

text \<open>
  The module \<^verbatim>\<open>chromadb/server/fastapi/types.py\<close> declares one pydantic model per
  operation. A model is a table of fields (name, annotation, \<^verbatim>\<open>Field(default, ...)\<close>);
  constructing it from a decoded JSON body runs pydantic's validation of every field,
  in declaration order, and either yields the typed request or raises one
  \<^verbatim>\<open>ValidationError\<close> listing every failing location. The validation is that of
  pydantic version 1, the coercing one the module's own comment on \<^verbatim>\<open>Union[int, float]\<close>
  describes. The module declares no validator of its own and no constraint on a field.

  A decoded JSON value is a Python object of one of seven kinds. Strings are sequences
  of characters with code points below 256. A float is represented by what a validator
  can observe of it: \<^verbatim>\<open>str(x)\<close> and \<^verbatim>\<open>int(x)\<close> (absent when \<^verbatim>\<open>int\<close> raises: infinities, NaN).
\<close>

record pyfloat =
  float_str :: string
  float_int :: "int option"

datatype json =
    JNull
  | JBool bool
  | JInt int
  | JFloat pyfloat
  | JStr string
  | JList "json list"
  | JDict "(string \<times> json) list"

text \<open>The body of a request: a JSON object, looked up by key as \<^verbatim>\<open>input_data.get\<close> does.\<close>

type_synonym payload = "string \<rightharpoonup> json"

text \<open>A validated \<^verbatim>\<open>dict\<close>: its items in insertion order, one per key (a key may be any hashable).\<close>

type_synonym pydict = "(json \<times> json) list"

section \<open>Validation errors\<close>

datatype error_type =
    MissingError
  | NoneIsNotAllowedError
  | StrError
  | IntegerError
  | BoolError
  | ListError
  | DictError
  | WrongConstantError

datatype loc_item = Name string | Index nat

text \<open>An \<^verbatim>\<open>ErrorWrapper(exc, loc)\<close>; a \<^verbatim>\<open>ValidationError\<close> carries a list of them.\<close>

type_synonym error = "loc_item list \<times> error_type"

type_synonym 'a validator = "loc_item list \<Rightarrow> json \<Rightarrow> error list + 'a"

fun errors :: "error list + 'a \<Rightarrow> error list" where
  "errors (Inl es) = es"
| "errors (Inr _) = []"

section \<open>Scalar validators\<close>

text \<open>\<^verbatim>\<open>str(n)\<close> for an integer: its decimal digits.\<close>

fun str_of_nat :: "nat \<Rightarrow> string" where
  "str_of_nat n =
     (if n < 10 then [''0123456789'' ! n]
      else str_of_nat (n div 10) @ [''0123456789'' ! (n mod 10)])"

definition str_of_int :: "int \<Rightarrow> string" where
  "str_of_int i = (if i < 0 then CHR ''-'' # str_of_nat (nat (- i)) else str_of_nat (nat i))"

text \<open>
  \<^verbatim>\<open>str_validator\<close>: a \<^verbatim>\<open>str\<close> is kept; a \<^verbatim>\<open>float\<close> or an \<^verbatim>\<open>int\<close> (so also a
  \<^verbatim>\<open>bool\<close>) is converted with \<^verbatim>\<open>str\<close>; anything else is a \<^verbatim>\<open>StrError\<close>.
\<close>

fun str_validator :: "json \<Rightarrow> error_type + string" where
  "str_validator (JStr s) = Inr s"
| "str_validator (JFloat x) = Inr (float_str x)"
| "str_validator (JInt n) = Inr (str_of_int n)"
| "str_validator (JBool b) = Inr (if b then ''True'' else ''False'')"
| "str_validator _ = Inl StrError"

text \<open>
  \<^verbatim>\<open>int(s)\<close> for a string, base 10: surrounding whitespace is stripped, then an
  optional sign, then digits, where single underscores may separate digits. The
  whitespace \<^verbatim>\<open>int\<close> strips is tab, line feed, vertical tab, form feed, carriage return
  and space, and of the characters from 127 on those that are Unicode spaces (next
  line and no-break space); the separators 28 to 31 are not stripped.
\<close>

definition isspace :: "char \<Rightarrow> bool" where
  "isspace c = (of_char c \<in> {9, 10, 11, 12, 13, 32, 133, 160 :: nat})"

definition isdigit :: "char \<Rightarrow> bool" where
  "isdigit c = (48 \<le> (of_char c :: nat) \<and> (of_char c :: nat) \<le> 57)"

definition digit_value :: "char \<Rightarrow> nat" where
  "digit_value c = of_char c - 48"

definition strip :: "string \<Rightarrow> string" where
  "strip s = rev (dropWhile isspace (rev (dropWhile isspace s)))"

fun digits_from :: "nat \<Rightarrow> string \<Rightarrow> nat option" where
  "digits_from acc [] = Some acc"
| "digits_from acc [c] = (if isdigit c then Some (10 * acc + digit_value c) else None)"
| "digits_from acc (c # d # cs) =
     (if isdigit c then digits_from (10 * acc + digit_value c) (d # cs)
      else if c = CHR ''_'' \<and> isdigit d then digits_from acc (d # cs)
      else None)"

definition nat_of_str :: "string \<Rightarrow> nat option" where
  "nat_of_str s =
     (case s of [] \<Rightarrow> None
      | c # cs \<Rightarrow> if isdigit c then digits_from (digit_value c) cs else None)"

definition int_of_str :: "string \<Rightarrow> int option" where
  "int_of_str s =
     (case strip s of
        [] \<Rightarrow> None
      | c # cs \<Rightarrow>
          if c = CHR ''-'' then map_option (\<lambda>n. - int n) (nat_of_str cs)
          else if c = CHR ''+'' then map_option int (nat_of_str cs)
          else map_option int (nat_of_str (c # cs)))"

text \<open>
  \<^verbatim>\<open>int_validator\<close>: an \<^verbatim>\<open>int\<close> that is not a \<^verbatim>\<open>bool\<close> is kept; a string longer than
  4300 characters is refused; anything else goes through \<^verbatim>\<open>int(v)\<close>, whose
  \<^verbatim>\<open>TypeError\<close>, \<^verbatim>\<open>ValueError\<close> and \<^verbatim>\<open>OverflowError\<close> become an \<^verbatim>\<open>IntegerError\<close>.
\<close>

fun int_validator :: "json \<Rightarrow> error_type + int" where
  "int_validator (JInt n) = Inr n"
| "int_validator (JBool b) = Inr (if b then 1 else 0)"
| "int_validator (JStr s) =
     (if length s > 4300 then Inl IntegerError
      else case int_of_str s of Some n \<Rightarrow> Inr n | None \<Rightarrow> Inl IntegerError)"
| "int_validator (JFloat x) =
     (case float_int x of Some n \<Rightarrow> Inr n | None \<Rightarrow> Inl IntegerError)"
| "int_validator _ = Inl IntegerError"

text \<open>
  \<^verbatim>\<open>bool_validator\<close>: \<^verbatim>\<open>True\<close> and \<^verbatim>\<open>False\<close> are kept; a string is lowered; the value
  is then looked up in \<^verbatim>\<open>BOOL_TRUE = {1, '1', 'on', 't', 'true', 'y', 'yes'}\<close> and
  \<^verbatim>\<open>BOOL_FALSE = {0, '0', 'off', 'f', 'false', 'n', 'no'}\<close>. A float equal to 1 or 0 is
  found there; an unhashable value is a \<^verbatim>\<open>BoolError\<close> like any other miss. Only the
  letters A to Z matter to the lookup, so lowering is modelled on them alone.
\<close>

definition lower :: "string \<Rightarrow> string" where
  "lower s = map (\<lambda>c. if 65 \<le> (of_char c :: nat) \<and> (of_char c :: nat) \<le> 90
                        then char_of (of_char c + (32 :: nat)) else c) s"

definition BOOL_TRUE :: "string list" where
  "BOOL_TRUE = [''1'', ''on'', ''t'', ''true'', ''y'', ''yes'']"

definition BOOL_FALSE :: "string list" where
  "BOOL_FALSE = [''0'', ''off'', ''f'', ''false'', ''n'', ''no'']"

fun bool_validator :: "json \<Rightarrow> error_type + bool" where
  "bool_validator (JBool b) = Inr b"
| "bool_validator (JStr s) =
     (if List.member BOOL_TRUE (lower s) then Inr True
      else if List.member BOOL_FALSE (lower s) then Inr False
      else Inl BoolError)"
| "bool_validator (JInt n) =
     (if n = 1 then Inr True else if n = 0 then Inr False else Inl BoolError)"
| "bool_validator (JFloat x) =
     (if float_str x = ''1.0'' then Inr True
      else if float_str x = ''0.0'' \<or> float_str x = ''-0.0'' then Inr False
      else Inl BoolError)"
| "bool_validator _ = Inl BoolError"

text \<open>
  \<^verbatim>\<open>dict_validator\<close>: a \<^verbatim>\<open>dict\<close> is kept; anything else goes through \<^verbatim>\<open>dict(v)\<close>,
  which accepts an iterable of two-element iterables with hashable first elements (the
  empty string and the empty list among them) and whose \<^verbatim>\<open>TypeError\<close> and
  \<^verbatim>\<open>ValueError\<close> become a \<^verbatim>\<open>DictError\<close>. \<^verbatim>\<open>dict(v)\<close> inserts the pairs from left to
  right: a key equal to one already there keeps that key and its place and takes the
  new value. Numbers are equal as keys when their values are (\<^verbatim>\<open>1\<close>, \<^verbatim>\<open>True\<close> and
  \<^verbatim>\<open>1.0\<close> are one key). A float has an integer value when \<^verbatim>\<open>int\<close> converts it and its
  \<^verbatim>\<open>str\<close> ends in \<^verbatim>\<open>.0\<close> or has a positive exponent; two other floats are equal
  when their \<^verbatim>\<open>str\<close> is the same.
\<close>

fun hashable :: "json \<Rightarrow> bool" where
  "hashable (JList _) = False"
| "hashable (JDict _) = False"
| "hashable _ = True"

definition float_is_integer :: "pyfloat \<Rightarrow> bool" where
  "float_is_integer x =
     (float_int x \<noteq> None \<and>
      (drop (length (float_str x) - 2) (float_str x) = ''.0'' \<or> List.member (float_str x) CHR ''+''))"

fun integer_value :: "json \<Rightarrow> int option" where
  "integer_value (JBool b) = Some (if b then 1 else 0)"
| "integer_value (JInt n) = Some n"
| "integer_value (JFloat x) = (if float_is_integer x then float_int x else None)"
| "integer_value _ = None"

fun same_key :: "json \<Rightarrow> json \<Rightarrow> bool" where
  "same_key JNull JNull = True"
| "same_key (JStr s) (JStr t) = (s = t)"
| "same_key (JFloat x) (JFloat y) =
     (if float_is_integer x \<or> float_is_integer y
      then integer_value (JFloat x) = integer_value (JFloat y)
      else float_str x = float_str y)"
| "same_key a b =
     (case (integer_value a, integer_value b) of
        (Some m, Some n) \<Rightarrow> m = n
      | _ \<Rightarrow> False)"

fun dict_insert :: "json \<Rightarrow> json \<Rightarrow> pydict \<Rightarrow> pydict" where
  "dict_insert k v [] = [(k, v)]"
| "dict_insert k v ((k', v') # d) =
     (if same_key k' k then (k', v) # d else (k', v') # dict_insert k v d)"

fun as_pair :: "json \<Rightarrow> (json \<times> json) option" where
  "as_pair (JList [k, v]) = Some (k, v)"
| "as_pair (JStr [a, b]) = Some (JStr [a], JStr [b])"
| "as_pair (JDict [(k1, _), (k2, _)]) = Some (JStr k1, JStr k2)"
| "as_pair _ = None"

fun dict_update :: "pydict \<Rightarrow> json list \<Rightarrow> pydict option" where
  "dict_update d [] = Some d"
| "dict_update d (x # xs) =
     (case as_pair x of
        None \<Rightarrow> None
      | Some (k, v) \<Rightarrow> if hashable k then dict_update (dict_insert k v d) xs else None)"

definition dict_of_items :: "json list \<Rightarrow> pydict option" where
  "dict_of_items xs = dict_update [] xs"

fun dict_validator :: "json \<Rightarrow> error_type + pydict" where
  "dict_validator (JDict kvs) = Inr (map (\<lambda>(k, v). (JStr k, v)) kvs)"
| "dict_validator (JList xs) =
     (case dict_of_items xs of Some d \<Rightarrow> Inr d | None \<Rightarrow> Inl DictError)"
| "dict_validator (JStr s) = (if s = [] then Inr [] else Inl DictError)"
| "dict_validator _ = Inl DictError"

text \<open>The validator of \<^verbatim>\<open>Literal[c1, ..., cn]\<close> with string choices.\<close>

fun literal_validator :: "string list \<Rightarrow> json \<Rightarrow> error_type + string" where
  "literal_validator cs (JStr s) = (if List.member cs s then Inr s else Inl WrongConstantError)"
| "literal_validator cs _ = Inl WrongConstantError"

section \<open>Annotations\<close>

text \<open>
  \<^verbatim>\<open>ModelField.validate\<close>: \<^verbatim>\<open>None\<close> is returned as it is when the field allows it and is
  a \<^verbatim>\<open>NoneIsNotAllowedError\<close> otherwise, before any validator runs. \<^verbatim>\<open>Any\<close> has no
  validator and allows \<^verbatim>\<open>None\<close>.
\<close>

definition singleton :: "(json \<Rightarrow> error_type + 'a) \<Rightarrow> 'a validator" where
  "singleton f loc v =
     (if v = JNull then Inl [(loc, NoneIsNotAllowedError)]
      else case f v of Inl e \<Rightarrow> Inl [(loc, e)] | Inr x \<Rightarrow> Inr x)"

definition Any :: "json validator" where
  "Any loc v = Inr v"

definition str :: "string validator" where
  "str = singleton str_validator"

definition int' :: "int validator" where
  "int' = singleton int_validator"

definition bool' :: "bool validator" where
  "bool' = singleton bool_validator"

definition Literal :: "string list \<Rightarrow> string validator" where
  "Literal cs = singleton (literal_validator cs)"

text \<open>\<^verbatim>\<open>Dict[Any, Any]\<close>: keys and values are kept as they are.\<close>

definition Dict :: "pydict validator" where
  "Dict = singleton dict_validator"

definition Optional :: "'a validator \<Rightarrow> 'a option validator" where
  "Optional T loc v =
     (if v = JNull then Inr None
      else case T loc v of Inl es \<Rightarrow> Inl es | Inr x \<Rightarrow> Inr (Some x))"

text \<open>
  \<^verbatim>\<open>List[T]\<close>: the value must be a list; every element is validated at location
  \<^verbatim>\<open>(*loc, i)\<close> and the errors of all elements are collected.
\<close>

fun validate_sequence :: "'a validator \<Rightarrow> loc_item list \<Rightarrow> nat \<Rightarrow> json list \<Rightarrow> error list \<times> 'a list" where
  "validate_sequence T loc i [] = ([], [])"
| "validate_sequence T loc i (v # vs) =
     (case validate_sequence T loc (Suc i) vs of
        (es, rs) \<Rightarrow>
          (case T (loc @ [Index i]) v of
             Inl e \<Rightarrow> (e @ es, rs)
           | Inr r \<Rightarrow> (es, r # rs)))"

definition List :: "'a validator \<Rightarrow> 'a list validator" where
  "List T loc v =
     (case v of
        JNull \<Rightarrow> Inl [(loc, NoneIsNotAllowedError)]
      | JList vs \<Rightarrow>
          (case validate_sequence T loc 0 vs of
             ([], rs) \<Rightarrow> Inr rs
           | (es, _) \<Rightarrow> Inl es)
      | _ \<Rightarrow> Inl [(loc, ListError)])"

section \<open>Fields\<close>

text \<open>
  \<^verbatim>\<open>validate_model\<close>, for one field: a missing key is a \<^verbatim>\<open>MissingError\<close> when the
  field is required (\<^verbatim>\<open>Field(...)\<close>); otherwise the default is taken without being
  validated. A supplied value is validated at location \<^verbatim>\<open>(name,)\<close>.
\<close>

definition Field_required :: "string \<Rightarrow> 'a validator \<Rightarrow> payload \<Rightarrow> error list + 'a" where
  "Field_required name T p =
     (case p name of
        None \<Rightarrow> Inl [([Name name], MissingError)]
      | Some v \<Rightarrow> T [Name name] v)"

definition Field_default :: "'a \<Rightarrow> string \<Rightarrow> 'a validator \<Rightarrow> payload \<Rightarrow> error list + 'a" where
  "Field_default d name T p =
     (case p name of
        None \<Rightarrow> Inr d
      | Some v \<Rightarrow> T [Name name] v)"

section \<open>The models\<close>

record AddEmbedding =
  embeddings :: "json list option"
  metadatas :: "pydict option list option"
  documents :: "string option list option"
  ids :: "string list option"

text \<open>
  \<^verbatim>\<open>ids: List[str] = Field(None, ...)\<close>: the default \<^verbatim>\<open>None\<close> makes the field not
  required and makes pydantic set \<^verbatim>\<open>allow_none\<close> on it, as for an \<^verbatim>\<open>Optional\<close>.
\<close>

definition validate_AddEmbedding :: "payload \<Rightarrow> error list + AddEmbedding" where
  "validate_AddEmbedding p =
     (let e = Field_default None ''embeddings'' (Optional (List Any)) p;
          m = Field_default None ''metadatas'' (Optional (List (Optional Dict))) p;
          d = Field_default None ''documents'' (Optional (List (Optional str))) p;
          i = Field_default None ''ids'' (Optional (List str)) p
      in case (e, m, d, i) of
           (Inr e', Inr m', Inr d', Inr i') \<Rightarrow>
             Inr \<lparr>AddEmbedding.embeddings = e', AddEmbedding.metadatas = m',
                  AddEmbedding.documents = d', AddEmbedding.ids = i'\<rparr>
         | _ \<Rightarrow> Inl (errors e @ errors m @ errors d @ errors i))"

record UpdateEmbedding =
  embeddings :: "json list option"
  metadatas :: "pydict option list option"
  documents :: "string option list option"
  ids :: "string list"

definition validate_UpdateEmbedding :: "payload \<Rightarrow> error list + UpdateEmbedding" where
  "validate_UpdateEmbedding p =
     (let e = Field_default None ''embeddings'' (Optional (List Any)) p;
          m = Field_default None ''metadatas'' (Optional (List (Optional Dict))) p;
          d = Field_default None ''documents'' (Optional (List (Optional str))) p;
          i = Field_required ''ids'' (List str) p
      in case (e, m, d, i) of
           (Inr e', Inr m', Inr d', Inr i') \<Rightarrow>
             Inr \<lparr>UpdateEmbedding.embeddings = e', UpdateEmbedding.metadatas = m',
                  UpdateEmbedding.documents = d', UpdateEmbedding.ids = i'\<rparr>
         | _ \<Rightarrow> Inl (errors e @ errors m @ errors d @ errors i))"

text \<open>
  \<^verbatim>\<open>Include\<close> is imported from \<^verbatim>\<open>chromadb.api.types\<close>, which is not part of the module:
  its validator is a parameter of the two models that use it. Whatever it accepts, the
  field holds a list of strings, as the declared default does. The fields
  \<^verbatim>\<open>where\<close> and \<^verbatim>\<open>include\<close> carry a prime here, the plain words being reserved.
\<close>

record QueryEmbedding =
  where' :: "pydict option"
  where_document :: "pydict option"
  query_embeddings :: "json list"
  n_results :: int
  include' :: "string list"

definition validate_QueryEmbedding ::
    "string list validator \<Rightarrow> payload \<Rightarrow> error list + QueryEmbedding" where
  "validate_QueryEmbedding Include p =
     (let w = Field_default None ''where'' (Optional Dict) p;
          wd = Field_default None ''where_document'' (Optional Dict) p;
          q = Field_required ''query_embeddings'' (List Any) p;
          n = Field_default 10 ''n_results'' int' p;
          inc = Field_default [''metadatas'', ''documents'', ''distances''] ''include'' Include p
      in case (w, wd, q, n, inc) of
           (Inr w', Inr wd', Inr q', Inr n', Inr inc') \<Rightarrow>
             Inr \<lparr>where' = w', where_document = wd', query_embeddings = q',
                  n_results = n', include' = inc'\<rparr>
         | _ \<Rightarrow> Inl (errors w @ errors wd @ errors q @ errors n @ errors inc))"

record GetEmbedding =
  ids :: "string list option"
  where' :: "pydict option"
  where_document :: "pydict option"
  sort :: "string option"
  limit :: "int option"
  offset :: "int option"
  include' :: "string list"

definition validate_GetEmbedding ::
    "string list validator \<Rightarrow> payload \<Rightarrow> error list + GetEmbedding" where
  "validate_GetEmbedding Include p =
     (let i = Field_default None ''ids'' (Optional (List str)) p;
          w = Field_default None ''where'' (Optional Dict) p;
          wd = Field_default None ''where_document'' (Optional Dict) p;
          s = Field_default None ''sort'' (Optional str) p;
          l = Field_default None ''limit'' (Optional int') p;
          off = Field_default None ''offset'' (Optional int') p;
          inc = Field_default [''metadatas'', ''documents'', ''distances''] ''include'' Include p
      in case (i, w, wd, s, l, off, inc) of
           (Inr i', Inr w', Inr wd', Inr s', Inr l', Inr off', Inr inc') \<Rightarrow>
             Inr \<lparr>GetEmbedding.ids = i', GetEmbedding.where' = w',
                  GetEmbedding.where_document = wd', GetEmbedding.sort = s',
                  GetEmbedding.limit = l', GetEmbedding.offset = off',
                  GetEmbedding.include' = inc'\<rparr>
         | _ \<Rightarrow> Inl (errors i @ errors w @ errors wd @ errors s @ errors l @ errors off @ errors inc))"

record DeleteEmbedding =
  ids :: "string list option"
  where' :: "pydict option"
  where_document :: "pydict option"

definition validate_DeleteEmbedding :: "payload \<Rightarrow> error list + DeleteEmbedding" where
  "validate_DeleteEmbedding p =
     (let i = Field_default None ''ids'' (Optional (List str)) p;
          w = Field_default None ''where'' (Optional Dict) p;
          wd = Field_default None ''where_document'' (Optional Dict) p
      in case (i, w, wd) of
           (Inr i', Inr w', Inr wd') \<Rightarrow>
             Inr \<lparr>DeleteEmbedding.ids = i', DeleteEmbedding.where' = w',
                  DeleteEmbedding.where_document = wd'\<rparr>
         | _ \<Rightarrow> Inl (errors i @ errors w @ errors wd))"

text \<open>
  \<^verbatim>\<open>CollectionMetadata\<close> is imported from \<^verbatim>\<open>chromadb.api.types\<close> as well: its validator
  is a parameter, and the type of what it yields is a parameter of the record.
\<close>

record 'm CreateCollection =
  name :: string
  metadata :: "'m option"
  get_or_create :: bool

definition validate_CreateCollection ::
    "'m validator \<Rightarrow> payload \<Rightarrow> error list + 'm CreateCollection" where
  "validate_CreateCollection CollectionMetadata p =
     (let n = Field_required ''name'' str p;
          m = Field_default None ''metadata'' (Optional CollectionMetadata) p;
          g = Field_default False ''get_or_create'' bool' p
      in case (n, m, g) of
           (Inr n', Inr m', Inr g') \<Rightarrow> Inr \<lparr>name = n', metadata = m', get_or_create = g'\<rparr>
         | _ \<Rightarrow> Inl (errors n @ errors m @ errors g))"

text \<open>
  Modelled from the spec: \<^verbatim>\<open>chromadb.api.types.Include\<close>, which the module imports and
  does not define. The specification lists the selectors of a result as \<^verbatim>\<open>embeddings\<close>,
  \<^verbatim>\<open>metadatas\<close>, \<^verbatim>\<open>documents\<close> and \<^verbatim>\<open>distances\<close>: a list of these literals. It is what
  the parameter of the two models is set to where a payload is evaluated.
\<close>

definition Include :: "string list validator" where
  "Include = List (Literal [''documents'', ''embeddings'', ''metadatas'', ''distances''])"

section \<open>Vocabulary of the properties\<close>

text \<open>An embedding element given as a number, and a vector of such elements.\<close>

fun numeric :: "json \<Rightarrow> bool" where
  "numeric (JInt _) = True"
| "numeric (JFloat _) = True"
| "numeric _ = False"

fun numeric_vector :: "json \<Rightarrow> bool" where
  "numeric_vector (JList xs) = list_all numeric xs"
| "numeric_vector _ = False"

text \<open>The JSON form of a nullable entry of a parallel array.\<close>

fun nullable :: "('a \<Rightarrow> json) \<Rightarrow> 'a option \<Rightarrow> json" where
  "nullable f None = JNull"
| "nullable f (Some x) = f x"

section \<open>Fields under an update of the payload\<close>

lemma Field_default_upd:
  "Field_default d n T (p(k \<mapsto> v)) = (if n = k then T [Name n] v else Field_default d n T p)"
  by (simp add: Field_default_def)

lemma Field_required_upd:
  "Field_required n T (p(k \<mapsto> v)) = (if n = k then T [Name n] v else Field_required n T p)"
  by (simp add: Field_required_def)

section \<open>What the annotations accept\<close>

lemma validate_sequence_Any: "validate_sequence Any loc i vs = ([], vs)"
  by (induction vs arbitrary: i) (simp_all add: Any_def)

lemma List_Any: "List Any loc (JList vs) = Inr vs"
  by (simp add: List_def validate_sequence_Any)

lemma str_JStr: "str loc (JStr s) = Inr s"
  by (simp add: str_def singleton_def)

lemma str_Inr: "str loc v = Inr s \<longleftrightarrow> str_validator v = Inr s"
  by (cases v) (simp_all add: str_def singleton_def)

lemma str_Inl: "str loc v \<noteq> Inl []"
  by (simp add: str_def singleton_def split: sum.splits)

lemma int_JInt: "int' loc (JInt n) = Inr n"
  by (simp add: int'_def singleton_def)

lemma Optional_int_Inr:
  "Optional int' loc v = Inr r \<Longrightarrow>
   (case v of
      JNull \<Rightarrow> r = None
    | JInt n \<Rightarrow> r = Some n
    | JBool b \<Rightarrow> r = Some (if b then 1 else 0)
    | JFloat x \<Rightarrow> r \<noteq> None \<and> r = float_int x
    | JStr s \<Rightarrow> r \<noteq> None \<and> length s \<le> 4300 \<and> r = int_of_str s
    | JList _ \<Rightarrow> False
    | JDict _ \<Rightarrow> False)"
  by (cases v) (auto simp: Optional_def int'_def singleton_def split: option.splits if_splits dest: sym)

lemma validate_sequence_str: "validate_sequence str loc i (map JStr xs) = ([], xs)"
  by (induction xs arbitrary: i) (simp_all add: str_JStr)

lemma validate_sequence_str_Nil:
  "validate_sequence str loc i vs = ([], xs) \<Longrightarrow> map str_validator vs = map Inr xs"
proof (induction vs arbitrary: i xs)
  case Nil
  then show ?case by simp
next
  case (Cons v vs)
  obtain es rs where tl: "validate_sequence str loc (Suc i) vs = (es, rs)"
    by (cases "validate_sequence str loc (Suc i) vs")
  show ?case
  proof (cases "str (loc @ [Index i]) v")
    case (Inl e)
    with Cons.prems tl have "e = []" by simp
    with Inl show ?thesis by (simp add: str_Inl)
  next
    case (Inr s)
    with Cons.prems tl have "es = []" and xs: "xs = s # rs" by simp_all
    with tl have "map str_validator vs = map Inr rs" by (simp add: Cons.IH)
    moreover from Inr have "str_validator v = Inr s" by (simp add: str_Inr)
    ultimately show ?thesis by (simp add: xs)
  qed
qed

lemma List_str_Inr:
  "List str loc v = Inr xs \<Longrightarrow> \<exists>vs. v = JList vs \<and> map str_validator vs = map Inr xs"
  by (cases v) (auto simp: List_def split: prod.splits list.splits dest: validate_sequence_str_Nil)

lemma Optional_Inr:
  "Optional T loc v = Inr r \<Longrightarrow> v \<noteq> JNull \<Longrightarrow> \<exists>x. r = Some x \<and> T loc v = Inr x"
  by (auto simp: Optional_def split: sum.splits)

lemma Optional_str_nullable: "Optional str loc (nullable JStr d) = Inr d"
  by (cases d) (simp_all add: Optional_def str_JStr)

lemma Optional_Dict_nullable:
  "Optional Dict loc (nullable JDict m) = Inr (map_option (map (\<lambda>(k, v). (JStr k, v))) m)"
  by (cases m) (simp_all add: Optional_def Dict_def singleton_def)

lemma validate_sequence_Optional_str:
  "validate_sequence (Optional str) loc i (map (nullable JStr) ds) = ([], ds)"
  by (induction ds arbitrary: i) (simp_all add: Optional_str_nullable)

lemma validate_sequence_Optional_Dict:
  "validate_sequence (Optional Dict) loc i (map (nullable JDict) ms) =
     ([], map (map_option (map (\<lambda>(k, v). (JStr k, v)))) ms)"
  by (induction ms arbitrary: i) (simp_all add: Optional_Dict_nullable)

section \<open>When a model is constructed\<close>

lemma validate_AddEmbedding_Inr:
  "validate_AddEmbedding p = Inr a \<longleftrightarrow>
     Field_default None ''embeddings'' (Optional (List Any)) p = Inr (AddEmbedding.embeddings a) \<and>
     Field_default None ''metadatas'' (Optional (List (Optional Dict))) p = Inr (AddEmbedding.metadatas a) \<and>
     Field_default None ''documents'' (Optional (List (Optional str))) p = Inr (AddEmbedding.documents a) \<and>
     Field_default None ''ids'' (Optional (List str)) p = Inr (AddEmbedding.ids a)"
  unfolding validate_AddEmbedding_def Let_def
  by (cases a) (auto split: sum.splits)

lemma validate_UpdateEmbedding_Inr:
  "validate_UpdateEmbedding p = Inr u \<longleftrightarrow>
     Field_default None ''embeddings'' (Optional (List Any)) p = Inr (UpdateEmbedding.embeddings u) \<and>
     Field_default None ''metadatas'' (Optional (List (Optional Dict))) p = Inr (UpdateEmbedding.metadatas u) \<and>
     Field_default None ''documents'' (Optional (List (Optional str))) p = Inr (UpdateEmbedding.documents u) \<and>
     Field_required ''ids'' (List str) p = Inr (UpdateEmbedding.ids u)"
  unfolding validate_UpdateEmbedding_def Let_def
  by (cases u) (auto split: sum.splits)

lemma validate_QueryEmbedding_Inr:
  "validate_QueryEmbedding Inc p = Inr q \<longleftrightarrow>
     Field_default None ''where'' (Optional Dict) p = Inr (QueryEmbedding.where' q) \<and>
     Field_default None ''where_document'' (Optional Dict) p = Inr (QueryEmbedding.where_document q) \<and>
     Field_required ''query_embeddings'' (List Any) p = Inr (query_embeddings q) \<and>
     Field_default 10 ''n_results'' int' p = Inr (n_results q) \<and>
     Field_default [''metadatas'', ''documents'', ''distances''] ''include'' Inc p =
       Inr (QueryEmbedding.include' q)"
  unfolding validate_QueryEmbedding_def Let_def
  by (cases q) (auto split: sum.splits)

lemma validate_GetEmbedding_Inr:
  "validate_GetEmbedding Inc p = Inr g \<longleftrightarrow>
     Field_default None ''ids'' (Optional (List str)) p = Inr (GetEmbedding.ids g) \<and>
     Field_default None ''where'' (Optional Dict) p = Inr (GetEmbedding.where' g) \<and>
     Field_default None ''where_document'' (Optional Dict) p = Inr (GetEmbedding.where_document g) \<and>
     Field_default None ''sort'' (Optional str) p = Inr (sort g) \<and>
     Field_default None ''limit'' (Optional int') p = Inr (limit g) \<and>
     Field_default None ''offset'' (Optional int') p = Inr (offset g) \<and>
     Field_default [''metadatas'', ''documents'', ''distances''] ''include'' Inc p =
       Inr (GetEmbedding.include' g)"
  unfolding validate_GetEmbedding_def Let_def
  by (cases g) (auto split: sum.splits)

lemma validate_CreateCollection_Inr:
  "validate_CreateCollection CM p = Inr c \<longleftrightarrow>
     Field_required ''name'' str p = Inr (name c) \<and>
     Field_default None ''metadata'' (Optional CM) p = Inr (metadata c) \<and>
     Field_default False ''get_or_create'' bool' p = Inr (get_or_create c)"
  unfolding validate_CreateCollection_def Let_def
  by (cases c) (auto split: sum.splits)

lemmas evaluate =
  Field_default_def Field_required_def Optional_def List_def Any_def Dict_def Literal_def
  Include_def str_def int'_def singleton_def

section \<open>Parallel arrays of Add and Update\<close>

text \<open>
  C1, as the code has it. No validator of \<^verbatim>\<open>AddEmbedding\<close> or \<^verbatim>\<open>UpdateEmbedding\<close>
  relates one field to another. Whatever the lengths of the four arrays, a payload
  whose ids are strings, whose embeddings are a list, whose metadatas are mappings or
  nulls and whose documents are strings or nulls is accepted by both models, every
  array kept as supplied; and a payload that either model accepts is still accepted
  with \<open>ids\<close> set to any list of strings, of any length.
\<close>

theorem parallel_arrays_of_any_length:
  "validate_AddEmbedding
     [''ids'' \<mapsto> JList (map JStr is), ''embeddings'' \<mapsto> JList es,
      ''metadatas'' \<mapsto> JList (map (nullable JDict) ms),
      ''documents'' \<mapsto> JList (map (nullable JStr) ds)] =
   Inr \<lparr>AddEmbedding.embeddings = Some es,
        AddEmbedding.metadatas = Some (map (map_option (map (\<lambda>(k, v). (JStr k, v)))) ms),
        AddEmbedding.documents = Some ds, AddEmbedding.ids = Some is\<rparr> \<and>
   validate_UpdateEmbedding
     [''ids'' \<mapsto> JList (map JStr is), ''embeddings'' \<mapsto> JList es,
      ''metadatas'' \<mapsto> JList (map (nullable JDict) ms),
      ''documents'' \<mapsto> JList (map (nullable JStr) ds)] =
   Inr \<lparr>UpdateEmbedding.embeddings = Some es,
        UpdateEmbedding.metadatas = Some (map (map_option (map (\<lambda>(k, v). (JStr k, v)))) ms),
        UpdateEmbedding.documents = Some ds, UpdateEmbedding.ids = is\<rparr> \<and>
   (validate_AddEmbedding p = Inr a \<longrightarrow>
      validate_AddEmbedding (p(''ids'' \<mapsto> JList (map JStr js))) =
      Inr (a\<lparr>AddEmbedding.ids := Some js\<rparr>)) \<and>
   (validate_UpdateEmbedding p' = Inr u \<longrightarrow>
      validate_UpdateEmbedding (p'(''ids'' \<mapsto> JList (map JStr js))) =
      Inr (u\<lparr>UpdateEmbedding.ids := js\<rparr>))"
proof (intro conjI impI)
  show "validate_AddEmbedding
     [''ids'' \<mapsto> JList (map JStr is), ''embeddings'' \<mapsto> JList es,
      ''metadatas'' \<mapsto> JList (map (nullable JDict) ms),
      ''documents'' \<mapsto> JList (map (nullable JStr) ds)] =
   Inr \<lparr>AddEmbedding.embeddings = Some es,
        AddEmbedding.metadatas = Some (map (map_option (map (\<lambda>(k, v). (JStr k, v)))) ms),
        AddEmbedding.documents = Some ds, AddEmbedding.ids = Some is\<rparr>"
    by (simp add: validate_AddEmbedding_def Field_default_def Optional_def List_def
        validate_sequence_Any validate_sequence_str validate_sequence_Optional_str
        validate_sequence_Optional_Dict)
  show "validate_UpdateEmbedding
     [''ids'' \<mapsto> JList (map JStr is), ''embeddings'' \<mapsto> JList es,
      ''metadatas'' \<mapsto> JList (map (nullable JDict) ms),
      ''documents'' \<mapsto> JList (map (nullable JStr) ds)] =
   Inr \<lparr>UpdateEmbedding.embeddings = Some es,
        UpdateEmbedding.metadatas = Some (map (map_option (map (\<lambda>(k, v). (JStr k, v)))) ms),
        UpdateEmbedding.documents = Some ds, UpdateEmbedding.ids = is\<rparr>"
    by (simp add: validate_UpdateEmbedding_def Field_default_def Field_required_def
        Optional_def List_def validate_sequence_Any validate_sequence_str
        validate_sequence_Optional_str validate_sequence_Optional_Dict)
next
  assume "validate_AddEmbedding p = Inr a"
  then show "validate_AddEmbedding (p(''ids'' \<mapsto> JList (map JStr js))) =
      Inr (a\<lparr>AddEmbedding.ids := Some js\<rparr>)"
    by (simp add: validate_AddEmbedding_Inr Field_default_upd Optional_def List_def
        validate_sequence_str)
next
  assume "validate_UpdateEmbedding p' = Inr u"
  then show "validate_UpdateEmbedding (p'(''ids'' \<mapsto> JList (map JStr js))) =
      Inr (u\<lparr>UpdateEmbedding.ids := js\<rparr>)"
    by (simp add: validate_UpdateEmbedding_Inr Field_default_upd Field_required_upd List_def
        validate_sequence_str)
qed

theorem parallel_arrays_of_any_length_witness:
  "validate_AddEmbedding
     [''ids'' \<mapsto> JList [JStr ''a'', JStr ''b''],
      ''documents'' \<mapsto> JList [JStr ''x'', JStr ''y''],
      ''metadatas'' \<mapsto> JList [JDict [(''t'', JInt 1)]]] =
   Inr \<lparr>AddEmbedding.embeddings = None,
        AddEmbedding.metadatas = Some [Some [(JStr ''t'', JInt 1)]],
        AddEmbedding.documents = Some [Some ''x'', Some ''y''],
        AddEmbedding.ids = Some [''a'', ''b'']\<rparr> \<and>
   validate_AddEmbedding
     [''ids'' \<mapsto> JList [JStr ''a'', JStr ''b''],
      ''documents'' \<mapsto> JList [JStr ''x'', JStr ''y''],
      ''metadatas'' \<mapsto> JList [JDict [(''t'', JInt 1)]],
      ''ids'' \<mapsto> JList (map JStr [''a'', ''b'', ''c''])] =
   Inr \<lparr>AddEmbedding.embeddings = None,
        AddEmbedding.metadatas = Some [Some [(JStr ''t'', JInt 1)]],
        AddEmbedding.documents = Some [Some ''x'', Some ''y''],
        AddEmbedding.ids = Some [''a'', ''b'', ''c'']\<rparr> \<and>
   validate_UpdateEmbedding
     [''ids'' \<mapsto> JList [JStr ''a'', JStr ''b''],
      ''documents'' \<mapsto> JList [JStr ''x'', JStr ''y''],
      ''metadatas'' \<mapsto> JList [JDict [(''t'', JInt 1)]],
      ''ids'' \<mapsto> JList (map JStr [''a'', ''b'', ''c''])] =
   Inr \<lparr>UpdateEmbedding.embeddings = None,
        UpdateEmbedding.metadatas = Some [Some [(JStr ''t'', JInt 1)]],
        UpdateEmbedding.documents = Some [Some ''x'', Some ''y''],
        UpdateEmbedding.ids = [''a'', ''b'', ''c'']\<rparr>"
proof -
  let ?p = "[''ids'' \<mapsto> JList [JStr ''a'', JStr ''b''],
             ''documents'' \<mapsto> JList [JStr ''x'', JStr ''y''],
             ''metadatas'' \<mapsto> JList [JDict [(''t'', JInt 1)]]]"
  let ?a = "\<lparr>AddEmbedding.embeddings = None,
             AddEmbedding.metadatas = Some [Some [(JStr ''t'', JInt 1)]],
             AddEmbedding.documents = Some [Some ''x'', Some ''y''],
             AddEmbedding.ids = Some [''a'', ''b'']\<rparr>"
  let ?u = "\<lparr>UpdateEmbedding.embeddings = None,
             UpdateEmbedding.metadatas = Some [Some [(JStr ''t'', JInt 1)]],
             UpdateEmbedding.documents = Some [Some ''x'', Some ''y''],
             UpdateEmbedding.ids = [''a'', ''b'']\<rparr>"
  have a: "validate_AddEmbedding ?p = Inr ?a"
    by (simp add: validate_AddEmbedding_def evaluate)
  have u: "validate_UpdateEmbedding ?p = Inr ?u"
    by (simp add: validate_UpdateEmbedding_def evaluate)
  from parallel_arrays_of_any_length [of _ _ _ _ ?p ?a "[''a'', ''b'', ''c'']" ?p ?u] a u
  show ?thesis by simp
qed

text \<open>
  C1 as stated fails: two ids with one embedding (length \<open>n - 1\<close>) and two ids with
  three embeddings (length \<open>n + 1\<close>) are both accepted.
\<close>

theorem parallel_arrays_counterexample:
  "validate_AddEmbedding
     [''ids'' \<mapsto> JList [JStr ''a'', JStr ''b''],
      ''embeddings'' \<mapsto> JList [JList [JInt 1, JInt 2]]] =
   Inr \<lparr>AddEmbedding.embeddings = Some [JList [JInt 1, JInt 2]],
        AddEmbedding.metadatas = None, AddEmbedding.documents = None,
        AddEmbedding.ids = Some [''a'', ''b'']\<rparr> \<and>
   validate_AddEmbedding
     [''ids'' \<mapsto> JList [JStr ''a'', JStr ''b''],
      ''embeddings'' \<mapsto> JList [JList [JInt 1], JList [JInt 2], JList [JInt 3]]] =
   Inr \<lparr>AddEmbedding.embeddings = Some [JList [JInt 1], JList [JInt 2], JList [JInt 3]],
        AddEmbedding.metadatas = None, AddEmbedding.documents = None,
        AddEmbedding.ids = Some [''a'', ''b'']\<rparr>"
  by (simp add: validate_AddEmbedding_def evaluate)

section \<open>The ids of Add and Update\<close>

text \<open>
  C2, as the code has it. \<^verbatim>\<open>UpdateEmbedding\<close> is constructed only if \<open>ids\<close> is present
  and is a list whose elements are strings, or numbers and booleans, which are turned
  into strings; an \<open>ids\<close> that \<^verbatim>\<open>AddEmbedding\<close> is given, other than null, must be such
  a list as well. No length is asked of the list: with \<open>ids\<close> set to the empty list a
  payload that was accepted stays accepted, by both models.
\<close>

theorem ids_is_a_list_of_strings:
  "(validate_UpdateEmbedding p = Inr u \<longrightarrow>
      (\<exists>vs. p ''ids'' = Some (JList vs) \<and> map str_validator vs = map Inr (UpdateEmbedding.ids u)) \<and>
      validate_UpdateEmbedding (p(''ids'' \<mapsto> JList [])) = Inr (u\<lparr>UpdateEmbedding.ids := []\<rparr>)) \<and>
   (validate_AddEmbedding p = Inr a \<longrightarrow>
      (\<forall>v. p ''ids'' = Some v \<and> v \<noteq> JNull \<longrightarrow>
         (\<exists>vs xs. v = JList vs \<and> AddEmbedding.ids a = Some xs \<and>
                  map str_validator vs = map Inr xs)) \<and>
      validate_AddEmbedding (p(''ids'' \<mapsto> JList [])) = Inr (a\<lparr>AddEmbedding.ids := Some []\<rparr>))"
proof (intro conjI impI allI)
  assume ok: "validate_UpdateEmbedding p = Inr u"
  then have "Field_required ''ids'' (List str) p = Inr (UpdateEmbedding.ids u)"
    by (simp add: validate_UpdateEmbedding_Inr)
  then obtain v where v: "p ''ids'' = Some v"
    and "List str [Name ''ids''] v = Inr (UpdateEmbedding.ids u)"
    by (auto simp: Field_required_def split: option.splits)
  with List_str_Inr show
    "\<exists>vs. p ''ids'' = Some (JList vs) \<and> map str_validator vs = map Inr (UpdateEmbedding.ids u)"
    by blast
  from ok show
    "validate_UpdateEmbedding (p(''ids'' \<mapsto> JList [])) = Inr (u\<lparr>UpdateEmbedding.ids := []\<rparr>)"
    by (simp add: validate_UpdateEmbedding_Inr Field_default_upd Field_required_upd List_def)
next
  fix v
  assume ok: "validate_AddEmbedding p = Inr a" and v: "p ''ids'' = Some v \<and> v \<noteq> JNull"
  from ok have "Field_default None ''ids'' (Optional (List str)) p = Inr (AddEmbedding.ids a)"
    by (simp add: validate_AddEmbedding_Inr)
  with v have "Optional (List str) [Name ''ids''] v = Inr (AddEmbedding.ids a)"
    by (simp add: Field_default_def)
  with v obtain xs where "AddEmbedding.ids a = Some xs"
    and "List str [Name ''ids''] v = Inr xs"
    by (blast dest: Optional_Inr)
  with List_str_Inr show
    "\<exists>vs xs. v = JList vs \<and> AddEmbedding.ids a = Some xs \<and> map str_validator vs = map Inr xs"
    by blast
next
  assume "validate_AddEmbedding p = Inr a"
  then show
    "validate_AddEmbedding (p(''ids'' \<mapsto> JList [])) = Inr (a\<lparr>AddEmbedding.ids := Some []\<rparr>)"
    by (simp add: validate_AddEmbedding_Inr Field_default_upd Optional_def List_def)
qed

theorem ids_is_a_list_of_strings_witness:
  "(\<exists>vs. [''ids'' \<mapsto> JList [JStr ''ID1'', JInt 2]] ''ids'' = Some (JList vs) \<and>
         map str_validator vs = map Inr [''ID1'', ''2'']) \<and>
   validate_UpdateEmbedding ([''ids'' \<mapsto> JList [JStr ''ID1'', JInt 2]](''ids'' \<mapsto> JList [])) =
     Inr \<lparr>UpdateEmbedding.embeddings = None, UpdateEmbedding.metadatas = None,
          UpdateEmbedding.documents = None, UpdateEmbedding.ids = []\<rparr> \<and>
   (\<exists>vs xs. JList [JStr ''ID1'', JInt 2] = JList vs \<and> Some [''ID1'', ''2''] = Some xs \<and>
            map str_validator vs = map Inr xs) \<and>
   validate_AddEmbedding ([''ids'' \<mapsto> JList [JStr ''ID1'', JInt 2]](''ids'' \<mapsto> JList [])) =
     Inr \<lparr>AddEmbedding.embeddings = None, AddEmbedding.metadatas = None,
          AddEmbedding.documents = None, AddEmbedding.ids = Some []\<rparr>"
proof -
  let ?p = "[''ids'' \<mapsto> JList [JStr ''ID1'', JInt 2]]"
  let ?u = "\<lparr>UpdateEmbedding.embeddings = None, UpdateEmbedding.metadatas = None,
             UpdateEmbedding.documents = None, UpdateEmbedding.ids = [''ID1'', ''2'']\<rparr>"
  let ?a = "\<lparr>AddEmbedding.embeddings = None, AddEmbedding.metadatas = None,
             AddEmbedding.documents = None, AddEmbedding.ids = Some [''ID1'', ''2'']\<rparr>"
  have u: "validate_UpdateEmbedding ?p = Inr ?u"
    by (simp add: validate_AddEmbedding_def validate_UpdateEmbedding_def evaluate str_of_int_def)
  have a: "validate_AddEmbedding ?p = Inr ?a"
    by (simp add: validate_AddEmbedding_def validate_UpdateEmbedding_def evaluate str_of_int_def)
  have v: "?p ''ids'' = Some (JList [JStr ''ID1'', JInt 2]) \<and> JList [JStr ''ID1'', JInt 2] \<noteq> JNull"
    by simp
  from ids_is_a_list_of_strings [of ?p ?u ?a] u a v show ?thesis
    by simp
qed

text \<open>
  C2 as stated fails: the empty list of ids is accepted by \<^verbatim>\<open>UpdateEmbedding\<close>.
\<close>

theorem empty_ids_counterexample:
  "validate_UpdateEmbedding [''ids'' \<mapsto> JList []] =
   Inr \<lparr>UpdateEmbedding.embeddings = None, UpdateEmbedding.metadatas = None,
        UpdateEmbedding.documents = None, UpdateEmbedding.ids = []\<rparr>"
  by (simp add: validate_UpdateEmbedding_def evaluate)

section \<open>Defaults of Get and Query\<close>

text \<open>
  C3. When the payload has no \<open>include\<close>, a \<^verbatim>\<open>GetEmbedding\<close> and a \<^verbatim>\<open>QueryEmbedding\<close>
  that are constructed hold the declared default: the selectors are exactly
  \<open>metadatas\<close>, \<open>documents\<close> and \<open>distances\<close>, and \<open>embeddings\<close> is not among them.
  This holds whatever the validator of \<^verbatim>\<open>Include\<close> is, a default not being validated.
\<close>

theorem include_defaults:
  assumes "p ''include'' = None"
  shows "(validate_GetEmbedding Inc p = Inr g \<longrightarrow>
            GetEmbedding.include' g = [''metadatas'', ''documents'', ''distances''] \<and>
            set (GetEmbedding.include' g) = {''metadatas'', ''documents'', ''distances''} \<and>
            ''embeddings'' \<notin> set (GetEmbedding.include' g)) \<and>
         (validate_QueryEmbedding Inc p = Inr q \<longrightarrow>
            QueryEmbedding.include' q = [''metadatas'', ''documents'', ''distances''] \<and>
            set (QueryEmbedding.include' q) = {''metadatas'', ''documents'', ''distances''} \<and>
            ''embeddings'' \<notin> set (QueryEmbedding.include' q))"
proof -
  have "Field_default [''metadatas'', ''documents'', ''distances''] ''include'' Inc p =
          Inr [''metadatas'', ''documents'', ''distances'']"
    using assms by (simp add: Field_default_def)
  then have
    "validate_GetEmbedding Inc p = Inr g \<Longrightarrow>
       GetEmbedding.include' g = [''metadatas'', ''documents'', ''distances'']"
    "validate_QueryEmbedding Inc p = Inr q \<Longrightarrow>
       QueryEmbedding.include' q = [''metadatas'', ''documents'', ''distances'']"
    by (simp_all add: validate_GetEmbedding_Inr validate_QueryEmbedding_Inr)
  then show ?thesis by auto
qed

theorem include_defaults_witness:
  "[''query_embeddings'' \<mapsto> JList [JList [JInt 1]], ''ids'' \<mapsto> JList [JStr ''x'']] ''include'' = None \<and>
   validate_GetEmbedding Include
     [''query_embeddings'' \<mapsto> JList [JList [JInt 1]], ''ids'' \<mapsto> JList [JStr ''x'']] =
     Inr \<lparr>GetEmbedding.ids = Some [''x''], GetEmbedding.where' = None,
          GetEmbedding.where_document = None, GetEmbedding.sort = None,
          GetEmbedding.limit = None, GetEmbedding.offset = None,
          GetEmbedding.include' = [''metadatas'', ''documents'', ''distances'']\<rparr> \<and>
   validate_QueryEmbedding Include
     [''query_embeddings'' \<mapsto> JList [JList [JInt 1]], ''ids'' \<mapsto> JList [JStr ''x'']] =
     Inr \<lparr>QueryEmbedding.where' = None, QueryEmbedding.where_document = None,
          query_embeddings = [JList [JInt 1]], n_results = 10,
          QueryEmbedding.include' = [''metadatas'', ''documents'', ''distances'']\<rparr> \<and>
   ''embeddings'' \<notin> set [''metadatas'', ''documents'', ''distances'']"
proof -
  let ?p = "[''query_embeddings'' \<mapsto> JList [JList [JInt 1]], ''ids'' \<mapsto> JList [JStr ''x'']]"
  obtain g where g: "validate_GetEmbedding Include ?p = Inr g"
    and "GetEmbedding.ids g = Some [''x'']" "GetEmbedding.where' g = None"
      "GetEmbedding.where_document g = None" "GetEmbedding.sort g = None"
      "GetEmbedding.limit g = None" "GetEmbedding.offset g = None"
    by (simp add: validate_GetEmbedding_def validate_QueryEmbedding_def evaluate)
  obtain q where q: "validate_QueryEmbedding Include ?p = Inr q"
    and "QueryEmbedding.where' q = None" "QueryEmbedding.where_document q = None"
      "query_embeddings q = [JList [JInt 1]]" "n_results q = 10"
    by (simp add: validate_GetEmbedding_def validate_QueryEmbedding_def evaluate)
  have none: "?p ''include'' = None" by simp
  from include_defaults [of ?p Include g q] none g q
  have "GetEmbedding.include' g = [''metadatas'', ''documents'', ''distances'']"
    and "QueryEmbedding.include' q = [''metadatas'', ''documents'', ''distances'']"
    by simp_all
  with g q none show ?thesis by (simp add: validate_GetEmbedding_def validate_QueryEmbedding_def evaluate)
qed

text \<open>
  C4. A Query payload without \<open>n_results\<close> is validated to the same result, request or
  errors, as the payload with \<open>n_results\<close> set to the integer 10.
\<close>

theorem n_results_defaults_to_10:
  "p ''n_results'' = None \<Longrightarrow>
   validate_QueryEmbedding Inc p = validate_QueryEmbedding Inc (p(''n_results'' \<mapsto> JInt 10))"
  unfolding validate_QueryEmbedding_def
  by (simp add: Field_default_upd Field_required_upd) (simp add: Field_default_def int_JInt)

theorem n_results_defaults_to_10_witness:
  "[''query_embeddings'' \<mapsto> JList [JList [JInt 1, JInt 2]]] ''n_results'' = None \<and>
   validate_QueryEmbedding Include [''query_embeddings'' \<mapsto> JList [JList [JInt 1, JInt 2]]] =
   validate_QueryEmbedding Include
     [''query_embeddings'' \<mapsto> JList [JList [JInt 1, JInt 2]], ''n_results'' \<mapsto> JInt 10] \<and>
   validate_QueryEmbedding Include
     [''query_embeddings'' \<mapsto> JList [JList [JInt 1, JInt 2]], ''n_results'' \<mapsto> JInt 10] =
   Inr \<lparr>QueryEmbedding.where' = None, QueryEmbedding.where_document = None,
        query_embeddings = [JList [JInt 1, JInt 2]], n_results = 10,
        QueryEmbedding.include' = [''metadatas'', ''documents'', ''distances'']\<rparr>"
proof -
  let ?p = "[''query_embeddings'' \<mapsto> JList [JList [JInt 1, JInt 2]]]"
  have none: "?p ''n_results'' = None"
    by simp
  from n_results_defaults_to_10 [of ?p Include] none show ?thesis
    by (simp add: validate_QueryEmbedding_def evaluate)
qed

section \<open>The name of a collection\<close>

text \<open>
  C5, as the code has it. \<^verbatim>\<open>CreateCollection\<close> is constructed only if \<open>name\<close> is present
  and is a string, or a number or a boolean, which is turned into a string (so a
  payload without \<open>name\<close>, or with a null, a list or a mapping there, is refused). No
  length is asked of the string: with \<open>name\<close> set to any string, the empty one
  included, a payload that was accepted stays accepted.
\<close>

theorem name_is_a_string:
  "validate_CreateCollection CM p = Inr c \<Longrightarrow>
   (\<exists>v. p ''name'' = Some v \<and> str_validator v = Inr (name c)) \<and>
   validate_CreateCollection CM (p(''name'' \<mapsto> JStr s)) = Inr (c\<lparr>name := s\<rparr>)"
proof
  assume ok: "validate_CreateCollection CM p = Inr c"
  then have "Field_required ''name'' str p = Inr (name c)"
    by (simp add: validate_CreateCollection_Inr)
  then show "\<exists>v. p ''name'' = Some v \<and> str_validator v = Inr (name c)"
    by (auto simp: Field_required_def str_Inr split: option.splits)
  from ok show "validate_CreateCollection CM (p(''name'' \<mapsto> JStr s)) = Inr (c\<lparr>name := s\<rparr>)"
    by (simp add: validate_CreateCollection_Inr Field_default_upd Field_required_upd str_JStr)
qed

theorem name_is_a_string_witness:
  "(\<exists>v. [''name'' \<mapsto> JStr ''my-collection'', ''get_or_create'' \<mapsto> JBool True] ''name'' = Some v \<and>
        str_validator v = Inr ''my-collection'') \<and>
   validate_CreateCollection Dict
     [''name'' \<mapsto> JStr ''my-collection'', ''get_or_create'' \<mapsto> JBool True, ''name'' \<mapsto> JStr ''''] =
   Inr \<lparr>name = '''', metadata = None, get_or_create = True\<rparr>"
proof -
  have "validate_CreateCollection Dict
          [''name'' \<mapsto> JStr ''my-collection'', ''get_or_create'' \<mapsto> JBool True] =
        Inr \<lparr>name = ''my-collection'', metadata = None, get_or_create = True\<rparr>"
    by (simp add: validate_CreateCollection_def bool'_def evaluate)
  from name_is_a_string [OF this, of "''''"] show ?thesis
    by simp
qed

text \<open>
  C5 as stated fails: the empty string is accepted as the name of a collection (the
  metadata, absent here, would be validated as a \<^verbatim>\<open>Dict[Any, Any]\<close>).
\<close>

theorem empty_name_counterexample:
  "validate_CreateCollection Dict [''name'' \<mapsto> JStr ''''] =
   Inr \<lparr>name = '''', metadata = None, get_or_create = False\<rparr>"
  by (simp add: validate_CreateCollection_def bool'_def evaluate)

section \<open>Paging of Get\<close>

text \<open>
  C6, as the code has it. \<open>limit\<close> and \<open>offset\<close> are declared as optional integers
  with no bound. When a Get payload that supplies \<open>limit\<close> is accepted, the value is
  null, and the request holds no limit, or it is an integer, and the request holds it,
  or it is a boolean, a float or a string that \<^verbatim>\<open>int\<close> converts, and the request holds
  the integer it converts to; a list or a mapping is never accepted. The same holds of
  \<open>offset\<close>. No sign is asked of the integer: with \<open>limit\<close> and \<open>offset\<close> set to any
  two integers, zero and the negative ones included, a payload that was accepted
  stays accepted, and the request holds the two integers as they were given.
\<close>

theorem limit_and_offset_of_any_sign:
  "validate_GetEmbedding Inc p = Inr g \<Longrightarrow>
   (\<forall>v. p ''limit'' = Some v \<longrightarrow>
      (case v of
         JNull \<Rightarrow> limit g = None
       | JInt n \<Rightarrow> limit g = Some n
       | JBool b \<Rightarrow> limit g = Some (if b then 1 else 0)
       | JFloat x \<Rightarrow> limit g \<noteq> None \<and> limit g = float_int x
       | JStr s \<Rightarrow> limit g \<noteq> None \<and> length s \<le> 4300 \<and> limit g = int_of_str s
       | JList _ \<Rightarrow> False
       | JDict _ \<Rightarrow> False)) \<and>
   (\<forall>v. p ''offset'' = Some v \<longrightarrow>
      (case v of
         JNull \<Rightarrow> offset g = None
       | JInt n \<Rightarrow> offset g = Some n
       | JBool b \<Rightarrow> offset g = Some (if b then 1 else 0)
       | JFloat x \<Rightarrow> offset g \<noteq> None \<and> offset g = float_int x
       | JStr s \<Rightarrow> offset g \<noteq> None \<and> length s \<le> 4300 \<and> offset g = int_of_str s
       | JList _ \<Rightarrow> False
       | JDict _ \<Rightarrow> False)) \<and>
   validate_GetEmbedding Inc (p(''limit'' \<mapsto> JInt l, ''offset'' \<mapsto> JInt off)) =
   Inr (g\<lparr>limit := Some l, offset := Some off\<rparr>)"
proof (intro conjI allI impI)
  fix v
  assume ok: "validate_GetEmbedding Inc p = Inr g" and v: "p ''limit'' = Some v"
  then have "Optional int' [Name ''limit''] v = Inr (limit g)"
    by (simp add: validate_GetEmbedding_Inr Field_default_def)
  then show "case v of
         JNull \<Rightarrow> limit g = None
       | JInt n \<Rightarrow> limit g = Some n
       | JBool b \<Rightarrow> limit g = Some (if b then 1 else 0)
       | JFloat x \<Rightarrow> limit g \<noteq> None \<and> limit g = float_int x
       | JStr s \<Rightarrow> limit g \<noteq> None \<and> length s \<le> 4300 \<and> limit g = int_of_str s
       | JList _ \<Rightarrow> False
       | JDict _ \<Rightarrow> False"
    by (rule Optional_int_Inr)
next
  fix v
  assume ok: "validate_GetEmbedding Inc p = Inr g" and v: "p ''offset'' = Some v"
  then have "Optional int' [Name ''offset''] v = Inr (offset g)"
    by (simp add: validate_GetEmbedding_Inr Field_default_def)
  then show "case v of
         JNull \<Rightarrow> offset g = None
       | JInt n \<Rightarrow> offset g = Some n
       | JBool b \<Rightarrow> offset g = Some (if b then 1 else 0)
       | JFloat x \<Rightarrow> offset g \<noteq> None \<and> offset g = float_int x
       | JStr s \<Rightarrow> offset g \<noteq> None \<and> length s \<le> 4300 \<and> offset g = int_of_str s
       | JList _ \<Rightarrow> False
       | JDict _ \<Rightarrow> False"
    by (rule Optional_int_Inr)
next
  assume "validate_GetEmbedding Inc p = Inr g"
  then show "validate_GetEmbedding Inc (p(''limit'' \<mapsto> JInt l, ''offset'' \<mapsto> JInt off)) =
      Inr (g\<lparr>limit := Some l, offset := Some off\<rparr>)"
    by (simp add: validate_GetEmbedding_Inr Field_default_upd Optional_def int_JInt)
qed

theorem limit_and_offset_of_any_sign_witness:
  "validate_GetEmbedding Include
     [''ids'' \<mapsto> JList [JStr ''x''], ''limit'' \<mapsto> JStr ''10'', ''offset'' \<mapsto> JInt 0] =
   Inr \<lparr>GetEmbedding.ids = Some [''x''], GetEmbedding.where' = None,
        GetEmbedding.where_document = None, GetEmbedding.sort = None,
        GetEmbedding.limit = Some 10, GetEmbedding.offset = Some 0,
        GetEmbedding.include' = [''metadatas'', ''documents'', ''distances'']\<rparr> \<and>
   Some (10 :: int) \<noteq> None \<and> length ''10'' \<le> 4300 \<and> Some 10 = int_of_str ''10'' \<and>
   validate_GetEmbedding Include
     [''ids'' \<mapsto> JList [JStr ''x''], ''limit'' \<mapsto> JStr ''10'', ''offset'' \<mapsto> JInt 0,
      ''limit'' \<mapsto> JInt (- 5), ''offset'' \<mapsto> JInt (- 50)] =
   Inr \<lparr>GetEmbedding.ids = Some [''x''], GetEmbedding.where' = None,
        GetEmbedding.where_document = None, GetEmbedding.sort = None,
        GetEmbedding.limit = Some (- 5), GetEmbedding.offset = Some (- 50),
        GetEmbedding.include' = [''metadatas'', ''documents'', ''distances'']\<rparr>"
proof -
  let ?p = "[''ids'' \<mapsto> JList [JStr ''x''], ''limit'' \<mapsto> JStr ''10'', ''offset'' \<mapsto> JInt 0]"
  let ?g = "\<lparr>GetEmbedding.ids = Some [''x''], GetEmbedding.where' = None,
             GetEmbedding.where_document = None, GetEmbedding.sort = None,
             GetEmbedding.limit = Some 10, GetEmbedding.offset = Some 0,
             GetEmbedding.include' = [''metadatas'', ''documents'', ''distances'']\<rparr>"
  have ten: "int_of_str ''10'' = Some 10"
    by code_simp
  have g: "validate_GetEmbedding Include ?p = Inr ?g"
    by (simp add: validate_GetEmbedding_def evaluate ten)
  have l: "?p ''limit'' = Some (JStr ''10'')" and off: "?p ''offset'' = Some (JInt 0)"
    by simp_all
  from limit_and_offset_of_any_sign [of Include ?p ?g "- 5" "- 50"] g l off
  have "(case JStr ''10'' of
         JNull \<Rightarrow> limit ?g = None
       | JInt n \<Rightarrow> limit ?g = Some n
       | JBool b \<Rightarrow> limit ?g = Some (if b then 1 else 0)
       | JFloat x \<Rightarrow> limit ?g \<noteq> None \<and> limit ?g = float_int x
       | JStr s \<Rightarrow> limit ?g \<noteq> None \<and> length s \<le> 4300 \<and> limit ?g = int_of_str s
       | JList _ \<Rightarrow> False
       | JDict _ \<Rightarrow> False)"
    and "validate_GetEmbedding Include (?p(''limit'' \<mapsto> JInt (- 5), ''offset'' \<mapsto> JInt (- 50))) =
         Inr (?g\<lparr>limit := Some (- 5), offset := Some (- 50)\<rparr>)"
    by blast+
  with g ten show ?thesis by simp
qed

text \<open>
  C6 as stated fails: a limit of zero and a negative offset are accepted.
\<close>

theorem limit_and_offset_counterexample:
  "validate_GetEmbedding Include [''limit'' \<mapsto> JInt 0, ''offset'' \<mapsto> JInt (- 1)] =
   Inr \<lparr>GetEmbedding.ids = None, GetEmbedding.where' = None,
        GetEmbedding.where_document = None, GetEmbedding.sort = None,
        GetEmbedding.limit = Some 0, GetEmbedding.offset = Some (- 1),
        GetEmbedding.include' = [''metadatas'', ''documents'', ''distances'']\<rparr>"
  by (simp add: validate_GetEmbedding_def evaluate)

section \<open>Embedding vectors\<close>

text \<open>
  C7. Let \<open>es\<close> be embedding vectors whose elements are integers and floats, in any
  mix. Put as \<open>embeddings\<close> into an Add payload that was accepted, or as
  \<open>query_embeddings\<close> into a Query payload that was accepted, they are accepted, and
  the request holds \<open>es\<close> itself: every element is the value that was given, an
  integer still an integer and a float still a float.
\<close>

theorem numeric_elements_kept_as_given:
  assumes "list_all numeric_vector es"
  shows "(validate_AddEmbedding p = Inr a \<longrightarrow>
            validate_AddEmbedding (p(''embeddings'' \<mapsto> JList es)) =
            Inr (a\<lparr>AddEmbedding.embeddings := Some es\<rparr>)) \<and>
         (validate_QueryEmbedding Inc p' = Inr q \<longrightarrow>
            validate_QueryEmbedding Inc (p'(''query_embeddings'' \<mapsto> JList es)) =
            Inr (q\<lparr>query_embeddings := es\<rparr>))"
  by (simp add: validate_AddEmbedding_Inr validate_QueryEmbedding_Inr Field_default_upd
      Field_required_upd Optional_def List_Any)

theorem numeric_elements_kept_as_given_witness:
  "list_all numeric_vector
     [JList [JInt 1, JFloat \<lparr>float_str = ''0.5'', float_int = Some 0\<rparr>, JInt (- 3)]] \<and>
   validate_AddEmbedding
     [''ids'' \<mapsto> JList [JStr ''ID1''],
      ''embeddings'' \<mapsto>
        JList [JList [JInt 1, JFloat \<lparr>float_str = ''0.5'', float_int = Some 0\<rparr>, JInt (- 3)]]] =
   Inr \<lparr>AddEmbedding.embeddings =
          Some [JList [JInt 1, JFloat \<lparr>float_str = ''0.5'', float_int = Some 0\<rparr>, JInt (- 3)]],
        AddEmbedding.metadatas = None, AddEmbedding.documents = None,
        AddEmbedding.ids = Some [''ID1'']\<rparr> \<and>
   validate_QueryEmbedding Include
     [''query_embeddings'' \<mapsto>
        JList [JList [JInt 1, JFloat \<lparr>float_str = ''0.5'', float_int = Some 0\<rparr>, JInt (- 3)]]] =
   Inr \<lparr>QueryEmbedding.where' = None, QueryEmbedding.where_document = None,
        query_embeddings =
          [JList [JInt 1, JFloat \<lparr>float_str = ''0.5'', float_int = Some 0\<rparr>, JInt (- 3)]],
        n_results = 10,
        QueryEmbedding.include' = [''metadatas'', ''documents'', ''distances'']\<rparr>"
proof -
  let ?es = "[JList [JInt 1, JFloat \<lparr>float_str = ''0.5'', float_int = Some 0\<rparr>, JInt (- 3)]]"
  let ?a = "\<lparr>AddEmbedding.embeddings = None, AddEmbedding.metadatas = None,
             AddEmbedding.documents = None, AddEmbedding.ids = Some [''ID1'']\<rparr>"
  let ?q = "\<lparr>QueryEmbedding.where' = None, QueryEmbedding.where_document = None,
             query_embeddings = [], n_results = 10,
             QueryEmbedding.include' = [''metadatas'', ''documents'', ''distances'']\<rparr>"
  have es: "list_all numeric_vector ?es"
    by simp
  have a: "validate_AddEmbedding [''ids'' \<mapsto> JList [JStr ''ID1'']] = Inr ?a"
    by (simp add: validate_AddEmbedding_def validate_QueryEmbedding_def evaluate)
  have q: "validate_QueryEmbedding Include [''query_embeddings'' \<mapsto> JList []] = Inr ?q"
    by (simp add: validate_AddEmbedding_def validate_QueryEmbedding_def evaluate)
  from numeric_elements_kept_as_given
         [OF es, of "[''ids'' \<mapsto> JList [JStr ''ID1'']]" ?a Include
            "[''query_embeddings'' \<mapsto> JList []]" ?q]
       es a q
  show ?thesis by simp
qed

text \<open>
  C10. What the elements of \<open>embeddings\<close> and \<open>query_embeddings\<close> are has no part in
  the validation: with any list \<open>es\<close> there, an Add payload and a Query payload are
  validated to what they are validated to with the empty list there, the same errors
  or else the same request, which holds \<open>es\<close> as it was given.
\<close>

theorem embedding_elements_unchecked:
  "validate_AddEmbedding (p(''embeddings'' \<mapsto> JList es)) =
     map_sum id (\<lambda>a. a\<lparr>AddEmbedding.embeddings := Some es\<rparr>)
       (validate_AddEmbedding (p(''embeddings'' \<mapsto> JList []))) \<and>
   validate_QueryEmbedding Inc (p(''query_embeddings'' \<mapsto> JList es)) =
     map_sum id (\<lambda>q. q\<lparr>query_embeddings := es\<rparr>)
       (validate_QueryEmbedding Inc (p(''query_embeddings'' \<mapsto> JList [])))"
proof
  show "validate_AddEmbedding (p(''embeddings'' \<mapsto> JList es)) =
          map_sum id (\<lambda>a. a\<lparr>AddEmbedding.embeddings := Some es\<rparr>)
            (validate_AddEmbedding (p(''embeddings'' \<mapsto> JList [])))"
    by (simp add: validate_AddEmbedding_def Let_def Field_default_upd Optional_def List_Any
        split: sum.splits)
  show "validate_QueryEmbedding Inc (p(''query_embeddings'' \<mapsto> JList es)) =
          map_sum id (\<lambda>q. q\<lparr>query_embeddings := es\<rparr>)
            (validate_QueryEmbedding Inc (p(''query_embeddings'' \<mapsto> JList [])))"
    by (simp add: validate_QueryEmbedding_def Let_def Field_default_upd Field_required_upd
        List_Any split: sum.splits)
qed

theorem embedding_elements_unchecked_witness:
  "validate_AddEmbedding
     [''ids'' \<mapsto> JList [JStr ''ID1''],
      ''embeddings'' \<mapsto>
        JList [JStr ''x'', JList [JList []], JNull, JDict [(''k'', JBool True)]]] =
   Inr \<lparr>AddEmbedding.embeddings =
          Some [JStr ''x'', JList [JList []], JNull, JDict [(''k'', JBool True)]],
        AddEmbedding.metadatas = None, AddEmbedding.documents = None,
        AddEmbedding.ids = Some [''ID1'']\<rparr> \<and>
   validate_QueryEmbedding Include
     [''n_results'' \<mapsto> JList [],
      ''query_embeddings'' \<mapsto>
        JList [JList [JStr ''x'', JList [JList []], JNull, JDict [(''k'', JBool True)]]]] =
   Inl [([Name ''n_results''], IntegerError)]"
proof -
  let ?es = "[JStr ''x'', JList [JList []], JNull, JDict [(''k'', JBool True)]]"
  have a: "validate_AddEmbedding [''ids'' \<mapsto> JList [JStr ''ID1''], ''embeddings'' \<mapsto> JList []] =
           Inr \<lparr>AddEmbedding.embeddings = Some [], AddEmbedding.metadatas = None,
                AddEmbedding.documents = None, AddEmbedding.ids = Some [''ID1'']\<rparr>"
    by (simp add: validate_AddEmbedding_def validate_QueryEmbedding_def evaluate)
  have q: "validate_QueryEmbedding Include
             [''n_results'' \<mapsto> JList [], ''query_embeddings'' \<mapsto> JList []] =
           Inl [([Name ''n_results''], IntegerError)]"
    by (simp add: validate_AddEmbedding_def validate_QueryEmbedding_def evaluate)
  from embedding_elements_unchecked [of "[''ids'' \<mapsto> JList [JStr ''ID1'']]" ?es]
       embedding_elements_unchecked [of "[''n_results'' \<mapsto> JList []]" "[JList ?es]" Include]
       a q
  show ?thesis by simp
qed

section \<open>Delete\<close>

text \<open>
  C9. A Delete payload with none of \<open>ids\<close>, \<open>where\<close> and \<open>where_document\<close>, the empty
  payload among them, is accepted: the \<^verbatim>\<open>DeleteEmbedding\<close> is constructed, with
  \<^verbatim>\<open>None\<close> in its three fields.
\<close>

theorem empty_delete_is_accepted:
  "p ''ids'' = None \<Longrightarrow> p ''where'' = None \<Longrightarrow> p ''where_document'' = None \<Longrightarrow>
   validate_DeleteEmbedding p =
   Inr \<lparr>DeleteEmbedding.ids = None, DeleteEmbedding.where' = None,
        DeleteEmbedding.where_document = None\<rparr>"
  by (simp add: validate_DeleteEmbedding_def Field_default_def)

theorem empty_delete_is_accepted_witness:
  "validate_DeleteEmbedding Map.empty =
   Inr \<lparr>DeleteEmbedding.ids = None, DeleteEmbedding.where' = None,
        DeleteEmbedding.where_document = None\<rparr>"
  using empty_delete_is_accepted [of Map.empty] by simp

end
